theory Spec2Isabelle
  imports Main
begin

section \<open>Static tables\<close>

text \<open>
  The module \<^verbatim>\<open>heavenlyStemAndEarthlyBranch.ts\<close> reads three constant tables from
  \<^verbatim>\<open>../data\<close>. The ten stems and the twelve branches are the literal types
  \<^verbatim>\<open>(typeof HEAVENLY_STEMS)[number]\<close> and \<^verbatim>\<open>(typeof EARTHLY_BRANCHES)[number]\<close>;
  here they are two enumerations, written in romanised form.
\<close>

datatype stem = S_jia | S_yi | S_bing | S_ding | S_wu | S_ji | S_geng | S_xin | S_ren | S_gui

datatype branch =
  B_zi | B_chou | B_yin | B_mao | B_chen | B_si | B_wu | B_wei | B_shen | B_you | B_xu | B_hai

text \<open>
  Modelled from the spec: the table \<^verbatim>\<open>HEAVENLY_STEMS\<close> of \<^verbatim>\<open>../data\<close>, ten fixed symbols
  in their traditional order (section 3; index 0 is the stem of the pair that opens the
  sexagenary cycle).
\<close>

definition HEAVENLY_STEMS :: "stem list" where
  "HEAVENLY_STEMS = [S_jia, S_yi, S_bing, S_ding, S_wu, S_ji, S_geng, S_xin, S_ren, S_gui]"

text \<open>
  Modelled from the spec: the table \<^verbatim>\<open>EARTHLY_BRANCHES\<close> of \<^verbatim>\<open>../data\<close>, twelve fixed
  symbols in their traditional order (section 3).
\<close>

definition EARTHLY_BRANCHES :: "branch list" where
  "EARTHLY_BRANCHES =
     [B_zi, B_chou, B_yin, B_mao, B_chen, B_si, B_wu, B_wei, B_shen, B_you, B_xu, B_hai]"

text \<open>
  Modelled from the spec: the table \<^verbatim>\<open>RAT_RULE\<close> of \<^verbatim>\<open>../data\<close>, which gives for each
  day stem the stem of the first double-hour of that day (section 4.5: five groups of
  two day stems share a starting stem, and the first stem starts at itself).
\<close>

fun RAT_RULE :: "stem \<Rightarrow> stem" where
  "RAT_RULE S_jia = S_jia"
| "RAT_RULE S_yi = S_bing"
| "RAT_RULE S_bing = S_wu"
| "RAT_RULE S_ding = S_geng"
| "RAT_RULE S_wu = S_ren"
| "RAT_RULE S_ji = S_jia"
| "RAT_RULE S_geng = S_bing"
| "RAT_RULE S_xin = S_wu"
| "RAT_RULE S_ren = S_geng"
| "RAT_RULE S_gui = S_ren"

section \<open>JavaScript primitives used by the module\<close>

text \<open>
  Numbers of the source are IEEE doubles. Every quantity the month, day and hour rules
  compute is an integer, and for any year a \<^verbatim>\<open>Date\<close> can hold its magnitude stays far
  below \<open>2^53\<close>, where double arithmetic on integers is exact; they are modelled as
  \<^typ>\<open>int\<close>. The year rule takes its number from the caller, so its subtraction is
  modelled with the rounding of doubles (\<open>roundToDouble\<close> below).

  The operator \<^verbatim>\<open>%\<close> is the remainder of truncating division: its sign is the sign of
  the dividend. (A result \<^verbatim>\<open>-0\<close> compares equal to 0 and reads property \<^verbatim>\<open>"0"\<close>, so it
  is 0 here.)
\<close>

definition jsRem :: "int \<Rightarrow> int \<Rightarrow> int" where
  "jsRem a b = sgn a * (\<bar>a\<bar> mod \<bar>b\<bar>)"

text \<open>
  The double that an arithmetic operation returns when its exact result is the integer
  \<open>n\<close>: \<open>n\<close> itself when it has at most 53 binary digits, and otherwise the nearest
  multiple of the unit in the last place, \<open>2 ^ (digits - 53)\<close>, a tie going to the even
  multiple. (The operands are doubles, so the result stays below the overflow threshold.)
  The remainder \<^verbatim>\<open>%\<close> of two doubles is exact and needs no rounding.
\<close>

fun bitLength :: "nat \<Rightarrow> nat" where
  "bitLength n = (if n = 0 then 0 else Suc (bitLength (n div 2)))"

declare bitLength.simps [simp del]

definition roundToDouble :: "int \<Rightarrow> int" where
  "roundToDouble n =
     (let a = \<bar>n\<bar>; e = bitLength (nat a)
      in if e \<le> 53 then n
         else let ulp = 2 ^ (e - 53);
                  q = a div ulp;
                  r = a mod ulp;
                  q' = (if 2 * r < ulp then q
                        else if ulp < 2 * r then q + 1
                        else if even q then q else q + 1)
              in sgn n * (q' * ulp))"

text \<open>
  Reading \<^verbatim>\<open>table[i]\<close> for an integer \<open>i\<close>: the element when \<open>i\<close> is an index of the
  array, \<^verbatim>\<open>undefined\<close> (here \<^const>\<open>None\<close>) otherwise, in particular for negative \<open>i\<close>.
\<close>

definition tableAt :: "'a list \<Rightarrow> int \<Rightarrow> 'a option" where
  "tableAt xs i = (if 0 \<le> i \<and> i < int (length xs) then Some (xs ! nat i) else None)"

text \<open>
  Modelled from the spec: \<^verbatim>\<open>fixIndex\<close> of \<^verbatim>\<open>../utils\<close> (section 4.1), which maps any
  integer to an index in \<open>[0, modulus - 1]\<close> by true modular reduction. Its second
  parameter defaults to 12; a call \<^verbatim>\<open>fixIndex(i)\<close> of the source is \<open>fixIndex i 12\<close> here.
\<close>

definition fixIndex :: "int \<Rightarrow> int \<Rightarrow> int" where
  "fixIndex i m = i mod m"

text \<open>
  \<^verbatim>\<open>Array.prototype.indexOf\<close>: the first index holding the element, or \<open>-1\<close>. The tables
  hold no \<^verbatim>\<open>undefined\<close>, so searching for \<^verbatim>\<open>undefined\<close> gives \<open>-1\<close>.
\<close>

fun indexFrom :: "'a list \<Rightarrow> 'a \<Rightarrow> int \<Rightarrow> int" where
  "indexFrom [] v i = - 1"
| "indexFrom (x # xs) v i = (if x = v then i else indexFrom xs v (i + 1))"

definition indexOf :: "'a list \<Rightarrow> 'a option \<Rightarrow> int" where
  "indexOf xs v = (case v of None \<Rightarrow> - 1 | Some w \<Rightarrow> indexFrom xs w 0)"

subsection \<open>Date.UTC\<close>

text \<open>
  \<^verbatim>\<open>Date.UTC(year, month, 1, 0, 0, 0, 0)\<close> after ECMA-262: a year from 0 to 99 stands for
  \<open>1900 + year\<close>; \<^verbatim>\<open>MakeDay\<close> carries the month into the year and counts the days from
  1 January 1970 to the first day of that month in the proleptic Gregorian calendar;
  \<^verbatim>\<open>TimeClip\<close> turns a time value beyond \<open>8.64e15\<close> milliseconds into \<^verbatim>\<open>NaN\<close>
  (here \<^const>\<open>None\<close>).
\<close>

definition msPerDay :: int where
  "msPerDay = 86400000"

definition DaysInYear :: "int \<Rightarrow> int" where
  "DaysInYear y =
     (if y mod 4 \<noteq> 0 then 365
      else if y mod 100 \<noteq> 0 then 366
      else if y mod 400 \<noteq> 0 then 365
      else 366)"

definition DayFromYear :: "int \<Rightarrow> int" where
  "DayFromYear y =
     365 * (y - 1970) + (y - 1969) div 4 - (y - 1901) div 100 + (y - 1601) div 400"

definition InLeapYear :: "int \<Rightarrow> int" where
  "InLeapYear y = (if DaysInYear y = 366 then 1 else 0)"

text \<open>The day within the year on which month \<open>mn\<close> (0 to 11) begins.\<close>

definition firstDayOfMonth :: "int \<Rightarrow> int \<Rightarrow> int" where
  "firstDayOfMonth y mn =
     (if mn = 0 then 0
      else if mn = 1 then 31
      else if mn = 2 then 59 + InLeapYear y
      else if mn = 3 then 90 + InLeapYear y
      else if mn = 4 then 120 + InLeapYear y
      else if mn = 5 then 151 + InLeapYear y
      else if mn = 6 then 181 + InLeapYear y
      else if mn = 7 then 212 + InLeapYear y
      else if mn = 8 then 243 + InLeapYear y
      else if mn = 9 then 273 + InLeapYear y
      else if mn = 10 then 304 + InLeapYear y
      else 334 + InLeapYear y)"

definition MakeDay :: "int \<Rightarrow> int \<Rightarrow> int \<Rightarrow> int" where
  "MakeDay year month date =
     (let ym = year + month div 12;
          mn = month mod 12
      in DayFromYear ym + firstDayOfMonth ym mn + date - 1)"

definition TimeClip :: "int \<Rightarrow> int option" where
  "TimeClip t = (if \<bar>t\<bar> > 8640000000000000 then None else Some t)"

definition Date_UTC :: "int \<Rightarrow> int \<Rightarrow> int \<Rightarrow> int option" where
  "Date_UTC year month date =
     (let yr = (if 0 \<le> year \<and> year \<le> 99 then 1900 + year else year)
      in TimeClip (MakeDay yr month date * msPerDay))"

section \<open>Pillars\<close>

text \<open>
  \<^verbatim>\<open>HeavenlyStemAndEarthlyBranch\<close> is a two-element array \<^verbatim>\<open>[stem, branch]\<close>. At run time
  either entry can be \<^verbatim>\<open>undefined\<close>, which the static type does not show.
\<close>

type_synonym pillar = "stem option \<times> branch option"

definition heavenlyStemAndEarthlyBranchFromOffset :: "int \<Rightarrow> pillar" where
  "heavenlyStemAndEarthlyBranchFromOffset offset =
     (tableAt HEAVENLY_STEMS (jsRem offset 10), tableAt EARTHLY_BRANCHES (jsRem offset 12))"

definition heavenlyStemAndEarthlyBranchOfYear :: "int \<Rightarrow> pillar" where
  "heavenlyStemAndEarthlyBranchOfYear year =
     (let heavenStemKey = jsRem (roundToDouble (year - 3)) 10;
          earthlyBranchKey = jsRem (roundToDouble (year - 3)) 12;
          heavenStemKey = (if heavenStemKey = 0 then 10 else heavenStemKey);
          earthlyBranchKey = (if earthlyBranchKey = 0 then 12 else earthlyBranchKey)
      in (tableAt HEAVENLY_STEMS (heavenStemKey - 1),
          tableAt EARTHLY_BRANCHES (earthlyBranchKey - 1)))"

section \<open>Collaborators\<close>

text \<open>
  The module imports its date handling from \<^verbatim>\<open>./convertor\<close> and \<^verbatim>\<open>./misc\<close>. These
  functions are parameters of the model, collected in one record; \<open>'d\<close> is the type of
  \<^verbatim>\<open>Date\<close> objects and \<open>'e\<close> the type of the errors the conversions raise.
  \<^item> \<open>normalizeSolarDateStr\<close> gives the year, month (1 to 12) and day of a date;
  \<^item> \<open>normalizeLunarDateStr\<close> gives the components of a lunar date string, of which the
    module reads the first, the lunar year;
  \<^item> \<open>lunar2solar\<close> gives a solar date object, of which the module reads \<^verbatim>\<open>toString()\<close>;
  \<^item> \<open>solar2lunar\<close> gives an object of which the module reads \<^verbatim>\<open>lunarYear\<close>;
  \<^item> \<open>getTerm\<close> gives the day of the month on which a solar term of a year falls;
  \<^item> \<open>newDate\<close> is \<^verbatim>\<open>new Date(string)\<close>.
\<close>

record ('d, 'e) collaborators =
  normalizeSolarDateStr :: "'d \<Rightarrow> int \<times> int \<times> int"
  normalizeLunarDateStr :: "string \<Rightarrow> 'e + int"
  lunar2solar :: "string \<Rightarrow> bool option \<Rightarrow> 'e + string"
  solar2lunar :: "string \<Rightarrow> 'e + int"
  getTerm :: "int \<Rightarrow> int \<Rightarrow> int"
  newDate :: "string \<Rightarrow> 'd"

section \<open>Month, day and hour pillars\<close>

definition heavenlyStemAndEarthlyBranchOfMonth :: "('d, 'e) collaborators \<Rightarrow> 'd \<Rightarrow> pillar" where
  "heavenlyStemAndEarthlyBranchOfMonth env date =
     (case normalizeSolarDateStr env date of (year, month, day) \<Rightarrow>
        let firstNode = getTerm env year (month * 2 - 1);
            offset = (year - 1900) * 12 + month + 11
        in if day \<ge> firstNode then heavenlyStemAndEarthlyBranchFromOffset (offset + 1)
           else heavenlyStemAndEarthlyBranchFromOffset offset)"

text \<open>
  In the day rule the time value is a whole number of days, so the division by
  \<open>86400000\<close> is exact. When \<^verbatim>\<open>Date.UTC\<close> gives \<^verbatim>\<open>NaN\<close>, the offset is \<^verbatim>\<open>NaN\<close>, both
  remainders are \<^verbatim>\<open>NaN\<close>, and both table reads give \<^verbatim>\<open>undefined\<close>.
\<close>

definition heavenlyStemAndEarthlyBranchOfDay ::
  "('d, 'e) collaborators \<Rightarrow> 'd \<Rightarrow> int \<Rightarrow> pillar" where
  "heavenlyStemAndEarthlyBranchOfDay env date timeIndex =
     (case normalizeSolarDateStr env date of (year, month, day) \<Rightarrow>
        let dayFix = (if timeIndex = 12 then 1 else 0)
        in case Date_UTC year (month - 1) 1 of
             None \<Rightarrow> (None, None)
           | Some t \<Rightarrow>
               let dayCyclical = t div 86400000 + 25567 + 10
               in heavenlyStemAndEarthlyBranchFromOffset (dayCyclical + day + dayFix - 1))"

text \<open>
  The argument that the day rule hands to the offset-to-pillar conversion, the
  epoch-day offset; \<^const>\<open>None\<close> when it is \<^verbatim>\<open>NaN\<close>.
\<close>

definition epochDayOffset :: "('d, 'e) collaborators \<Rightarrow> 'd \<Rightarrow> int \<Rightarrow> int option" where
  "epochDayOffset env date timeIndex =
     (case normalizeSolarDateStr env date of (year, month, day) \<Rightarrow>
        let dayFix = (if timeIndex = 12 then 1 else 0)
        in case Date_UTC year (month - 1) 1 of
             None \<Rightarrow> None
           | Some t \<Rightarrow> Some (t div 86400000 + 25567 + 10 + day + dayFix - 1))"

text \<open>
  The static type of the day stem is a stem; the aggregate queries pass whatever the
  day rule returned, which can be \<^verbatim>\<open>undefined\<close>. Then \<^verbatim>\<open>RAT_RULE[undefined]\<close> is
  \<^verbatim>\<open>undefined\<close> and \<^verbatim>\<open>indexOf\<close> gives \<open>-1\<close>.
\<close>

definition heavenlyStemAndEarthlyBranchOfTime :: "int \<Rightarrow> stem option \<Rightarrow> pillar" where
  "heavenlyStemAndEarthlyBranchOfTime timeIndex heavenlyStemOfDay =
     (let startHeavenlyStem = map_option RAT_RULE heavenlyStemOfDay;
          heavenlyStem =
            tableAt HEAVENLY_STEMS
              (fixIndex (indexOf HEAVENLY_STEMS startHeavenlyStem + fixIndex timeIndex 12) 10);
          earthlyBranch = tableAt EARTHLY_BRANCHES (fixIndex timeIndex 12)
      in (heavenlyStem, earthlyBranch))"

section \<open>Aggregate queries\<close>

record HeavenlyStemAndEarthlyBranchResult =
  yearly :: pillar
  monthly :: pillar
  daily :: pillar
  timely :: pillar

text \<open>
  The string of a result is a sequence of table symbols and spaces.
  \<^verbatim>\<open>[stem, branch].join('')\<close> writes nothing for an \<^verbatim>\<open>undefined\<close> entry.
\<close>

datatype glyph = StemGlyph stem | BranchGlyph branch | Space

definition joinPillar :: "pillar \<Rightarrow> glyph list" where
  "joinPillar p =
     (case fst p of None \<Rightarrow> [] | Some s \<Rightarrow> [StemGlyph s]) @
     (case snd p of None \<Rightarrow> [] | Some b \<Rightarrow> [BranchGlyph b])"

definition toString :: "HeavenlyStemAndEarthlyBranchResult \<Rightarrow> glyph list" where
  "toString r =
     joinPillar (yearly r) @ [Space] @ joinPillar (monthly r) @ [Space] @
     joinPillar (daily r) @ [Space] @ joinPillar (timely r)"

definition getHeavenlyStemAndEarthlyBranchByLunarDate ::
  "('d, 'e) collaborators \<Rightarrow> string \<Rightarrow> int \<Rightarrow> bool option \<Rightarrow>
     'e + HeavenlyStemAndEarthlyBranchResult" where
  "getHeavenlyStemAndEarthlyBranchByLunarDate env dateStr timeIndex isLeap =
     (case normalizeLunarDateStr env dateStr of
        Inl e \<Rightarrow> Inl e
      | Inr lunarYear \<Rightarrow>
          (case lunar2solar env dateStr isLeap of
             Inl e \<Rightarrow> Inl e
           | Inr solar \<Rightarrow>
               let solarDate = newDate env solar;
                   y = heavenlyStemAndEarthlyBranchOfYear lunarYear;
                   m = heavenlyStemAndEarthlyBranchOfMonth env solarDate;
                   d = heavenlyStemAndEarthlyBranchOfDay env solarDate timeIndex;
                   t = heavenlyStemAndEarthlyBranchOfTime timeIndex (fst d)
               in Inr \<lparr>yearly = y, monthly = m, daily = d, timely = t\<rparr>))"

definition getHeavenlyStemAndEarthlyBranchBySolarDate ::
  "('d, 'e) collaborators \<Rightarrow> string \<Rightarrow> int \<Rightarrow> 'e + HeavenlyStemAndEarthlyBranchResult" where
  "getHeavenlyStemAndEarthlyBranchBySolarDate env dateStr timeIndex =
     (let solarDate = newDate env dateStr
      in case solar2lunar env dateStr of
           Inl e \<Rightarrow> Inl e
         | Inr lunarYear \<Rightarrow>
             let y = heavenlyStemAndEarthlyBranchOfYear lunarYear;
                 m = heavenlyStemAndEarthlyBranchOfMonth env solarDate;
                 d = heavenlyStemAndEarthlyBranchOfDay env solarDate timeIndex;
                 t = heavenlyStemAndEarthlyBranchOfTime timeIndex (fst d)
             in Inr \<lparr>yearly = y, monthly = m, daily = d, timely = t\<rparr>)"

section \<open>Notions used to state the properties\<close>

text \<open>
  The year rule as section 4.2 of the specification words it, for comparison with the
  code: the remainder is the mathematical one, and a remainder 0 counts as the modulus.
\<close>

definition oneBasedRemainder :: "int \<Rightarrow> int \<Rightarrow> int" where
  "oneBasedRemainder n m = (if n mod m = 0 then m else n mod m)"

definition yearPillarSpec :: "int \<Rightarrow> pillar" where
  "yearPillarSpec year =
     (let stemRem = oneBasedRemainder (year - 3) 10;
          branchRem = oneBasedRemainder (year - 3) 12
      in (tableAt HEAVENLY_STEMS (stemRem - 1), tableAt EARTHLY_BRANCHES (branchRem - 1)))"

text \<open>
  The position of a pillar in the sexagenary cycle: the first offset from 0 to 59
  whose pillar it is. A pillar outside the cycle, or with an \<^verbatim>\<open>undefined\<close> entry,
  has none.
\<close>

definition cycleIndex :: "pillar \<Rightarrow> int option" where
  "cycleIndex p =
     List.find (\<lambda>k. heavenlyStemAndEarthlyBranchFromOffset k = p) (map int [0..<60])"

text \<open>Days of the Gregorian calendar as triples (year, month, day), and the day after.\<close>

definition daysInMonth :: "int \<Rightarrow> int \<Rightarrow> int" where
  "daysInMonth y m =
     (if m = 2 then 28 + InLeapYear y
      else if m = 4 \<or> m = 6 \<or> m = 9 \<or> m = 11 then 30
      else 31)"

definition validDate :: "int \<times> int \<times> int \<Rightarrow> bool" where
  "validDate ymd =
     (case ymd of (y, m, d) \<Rightarrow> 1 \<le> m \<and> m \<le> 12 \<and> 1 \<le> d \<and> d \<le> daysInMonth y m)"

definition nextDay :: "int \<times> int \<times> int \<Rightarrow> int \<times> int \<times> int" where
  "nextDay ymd =
     (case ymd of (y, m, d) \<Rightarrow>
        if d < daysInMonth y m then (y, m, d + 1)
        else if m < 12 then (y, m + 1, 1)
        else (y + 1, 1, 1))"

text \<open>
  A test double for the collaborators: dates are their own triples, every lunar
  string is a day of the lunar year 2023 that converts to 25 June 2023, and every
  term falls on the sixth day of its month.
\<close>

definition stubCollaborators :: "(int \<times> int \<times> int, unit) collaborators" where
  "stubCollaborators =
     \<lparr>normalizeSolarDateStr = (\<lambda>d. d),
      normalizeLunarDateStr = (\<lambda>s. Inr 2023),
      lunar2solar = (\<lambda>s isLeap. Inr ''2023-6-25''),
      solar2lunar = (\<lambda>s. Inr 2023),
      getTerm = (\<lambda>y n. 6),
      newDate = (\<lambda>s. (2023, 6, 25))\<rparr>"

section \<open>Basic facts\<close>

lemma jsRem_nonneg: "0 \<le> a \<Longrightarrow> 0 < b \<Longrightarrow> jsRem a b = a mod b"
  by (cases "a = 0") (simp_all add: jsRem_def)

lemma length_HEAVENLY_STEMS: "length HEAVENLY_STEMS = 10"
  by (simp add: HEAVENLY_STEMS_def)

lemma length_EARTHLY_BRANCHES: "length EARTHLY_BRANCHES = 12"
  by (simp add: EARTHLY_BRANCHES_def)

lemma tableAt_stems_mod: "tableAt HEAVENLY_STEMS (n mod 10) = Some (HEAVENLY_STEMS ! nat (n mod 10))"
  by (simp add: tableAt_def length_HEAVENLY_STEMS)

lemma tableAt_branches_mod:
  "tableAt EARTHLY_BRANCHES (n mod 12) = Some (EARTHLY_BRANCHES ! nat (n mod 12))"
  by (simp add: tableAt_def length_EARTHLY_BRANCHES)

lemma FromOffset_nonneg:
  "0 \<le> offset \<Longrightarrow>
     heavenlyStemAndEarthlyBranchFromOffset offset =
       (Some (HEAVENLY_STEMS ! nat (offset mod 10)), Some (EARTHLY_BRANCHES ! nat (offset mod 12)))"
  by (simp add: heavenlyStemAndEarthlyBranchFromOffset_def jsRem_nonneg
      tableAt_stems_mod tableAt_branches_mod)

section \<open>Offset to pillar\<close>

text \<open>
  Claim C1, as stated: for every integer offset, zero and negative ones included, the
  stem table is read at an index in \<open>[0, 9]\<close> and the branch table at an index in
  \<open>[0, 11]\<close>, so both entries of the result are defined. At offset \<open>-1\<close> the remainder
  is \<open>-1\<close> for both tables and both entries are \<^verbatim>\<open>undefined\<close>.
\<close>

theorem C1_negative_offset_counterexample:
  "jsRem (- 1) 10 = - 1 \<and> jsRem (- 1) 12 = - 1 \<and>
   heavenlyStemAndEarthlyBranchFromOffset (- 1) = (None, None)"
  by (simp add: heavenlyStemAndEarthlyBranchFromOffset_def jsRem_def tableAt_def)

text \<open>
  Claim C1, amended: for every non-negative integer offset, the stem table is read at
  \<open>offset mod 10\<close>, which lies in \<open>[0, 9]\<close>, the branch table at \<open>offset mod 12\<close>,
  which lies in \<open>[0, 11]\<close>, and the result is the pair of those two table entries.
\<close>

theorem C1_FromOffset_in_range:
  assumes "0 \<le> offset"
  shows "0 \<le> jsRem offset 10 \<and> jsRem offset 10 \<le> 9 \<and>
         0 \<le> jsRem offset 12 \<and> jsRem offset 12 \<le> 11 \<and>
         heavenlyStemAndEarthlyBranchFromOffset offset =
           (Some (HEAVENLY_STEMS ! nat (jsRem offset 10)),
            Some (EARTHLY_BRANCHES ! nat (jsRem offset 12)))"
proof -
  have r10: "jsRem offset 10 = offset mod 10" and r12: "jsRem offset 12 = offset mod 12"
    using assms by (simp_all add: jsRem_nonneg)
  have "0 \<le> offset mod 10" "offset mod 10 \<le> 9" "0 \<le> offset mod 12" "offset mod 12 \<le> 11"
    by simp_all
  then show ?thesis
    using FromOffset_nonneg [OF assms] by (simp add: r10 r12)
qed

theorem C1_FromOffset_in_range_witness:
  "(0::int) \<le> 13 \<and> jsRem 13 10 = 3 \<and> jsRem 13 12 = 1 \<and>
   heavenlyStemAndEarthlyBranchFromOffset 13 = (Some S_ding, Some B_chou)"
  using C1_FromOffset_in_range [of 13]
  by (simp add: jsRem_def HEAVENLY_STEMS_def EARTHLY_BRANCHES_def)

section \<open>Year pillar\<close>

lemma oneBasedRemainder_10: "1 \<le> oneBasedRemainder n 10 \<and> oneBasedRemainder n 10 \<le> 10"
  unfolding oneBasedRemainder_def by presburger

lemma oneBasedRemainder_12: "1 \<le> oneBasedRemainder n 12 \<and> oneBasedRemainder n 12 \<le> 12"
  unfolding oneBasedRemainder_def by presburger

lemma bitLength_le: "n < 2 ^ k \<Longrightarrow> bitLength n \<le> k"
proof (induction k arbitrary: n)
  case 0
  then show ?case by (simp del: bitLength.simps add: bitLength.simps [of 0])
next
  case (Suc k)
  show ?case
  proof (cases "n = 0")
    case True
    then show ?thesis by (simp del: bitLength.simps add: bitLength.simps [of 0])
  next
    case False
    have "n div 2 < 2 ^ k" using Suc.prems by simp
    then have "bitLength (n div 2) \<le> k" by (rule Suc.IH)
    then show ?thesis using False by (subst bitLength.simps) (simp del: bitLength.simps)
  qed
qed

lemma bitLength_gt: "2 ^ k \<le> n \<Longrightarrow> k < bitLength n"
proof (induction k arbitrary: n)
  case 0
  then have "n \<noteq> 0" by simp
  then show ?case by (subst bitLength.simps) (simp del: bitLength.simps)
next
  case (Suc k)
  have "0 < (2::nat) ^ Suc k" by simp
  with Suc.prems have n0: "n \<noteq> 0" by linarith
  have "2 ^ k \<le> n div 2" using Suc.prems by simp
  then have "k < bitLength (n div 2)" by (rule Suc.IH)
  then show ?case using n0 by (subst bitLength.simps) (simp del: bitLength.simps)
qed

lemma bitLength_54:
  assumes "9007199254740992 \<le> n" "n < 18014398509481984"
  shows "bitLength n = 54"
proof -
  have "2 ^ 53 \<le> n" "n < 2 ^ 54" using assms by simp_all
  then have "53 < bitLength n" "bitLength n \<le> 54"
    by (simp_all only: bitLength_gt bitLength_le)
  then show ?thesis by simp
qed

lemma roundToDouble_safe:
  assumes "\<bar>n\<bar> < 9007199254740992"
  shows "roundToDouble n = n"
proof -
  have "nat \<bar>n\<bar> < 2 ^ 53" using assms by simp
  then have "bitLength (nat \<bar>n\<bar>) \<le> 53" by (rule bitLength_le)
  then show ?thesis by (simp del: bitLength.simps add: roundToDouble_def Let_def)
qed

lemma OfYear_from_3:
  assumes "3 \<le> year" "year \<le> 9007199254740991"
  shows "heavenlyStemAndEarthlyBranchOfYear year =
           (tableAt HEAVENLY_STEMS (oneBasedRemainder (year - 3) 10 - 1),
            tableAt EARTHLY_BRANCHES (oneBasedRemainder (year - 3) 12 - 1))"
proof -
  have "\<bar>year - 3\<bar> < 9007199254740992" using assms by simp
  then have r: "roundToDouble (year - 3) = year - 3" by (rule roundToDouble_safe)
  have "jsRem (year - 3) 10 = (year - 3) mod 10" "jsRem (year - 3) 12 = (year - 3) mod 12"
    using assms(1) by (simp_all add: jsRem_nonneg)
  then show ?thesis
    by (simp add: heavenlyStemAndEarthlyBranchOfYear_def r oneBasedRemainder_def Let_def)
qed

text \<open>
  Claim C3, as stated: for every integer year, negative years included, the year pillar
  is the pair of table entries selected by the one-based remainders of \<open>year - 3\<close>.
  For the year \<open>-1\<close> the specification's rule selects the sixth stem and the eighth
  branch, while the code computes the remainders \<open>-4 % 10 = -4\<close> and \<open>-4 % 12 = -4\<close>
  and reads both tables at index \<open>-5\<close>. For the year \<open>2^54\<close> the rule selects the first
  stem and the first branch, while the code rounds \<open>2^54 - 3\<close> to \<open>2^54 - 4\<close>, finds
  both remainders 0 and returns the last stem and the last branch.
\<close>

theorem C3_year_outside_range_counterexample:
  "yearPillarSpec (- 1) = (Some S_ji, Some B_wei) \<and>
   heavenlyStemAndEarthlyBranchOfYear (- 1) = (None, None) \<and>
   yearPillarSpec 18014398509481984 = (Some S_jia, Some B_zi) \<and>
   heavenlyStemAndEarthlyBranchOfYear 18014398509481984 = (Some S_gui, Some B_hai)"
proof -
  have "yearPillarSpec (- 1) = (Some S_ji, Some B_wei)"
    "yearPillarSpec 18014398509481984 = (Some S_jia, Some B_zi)"
    by (simp_all add: yearPillarSpec_def oneBasedRemainder_def tableAt_def HEAVENLY_STEMS_def
        EARTHLY_BRANCHES_def)
  moreover have "roundToDouble (- 4) = - 4"
    by (rule roundToDouble_safe) simp
  then have "heavenlyStemAndEarthlyBranchOfYear (- 1) = (None, None)"
    by (simp del: bitLength.simps add: heavenlyStemAndEarthlyBranchOfYear_def jsRem_def
        tableAt_def HEAVENLY_STEMS_def EARTHLY_BRANCHES_def)
  moreover have "roundToDouble 18014398509481981 = 18014398509481980"
    by (simp del: bitLength.simps add: roundToDouble_def bitLength_54 Let_def)
  then have "heavenlyStemAndEarthlyBranchOfYear 18014398509481984 = (Some S_gui, Some B_hai)"
    by (simp del: bitLength.simps add: heavenlyStemAndEarthlyBranchOfYear_def jsRem_def
        tableAt_def HEAVENLY_STEMS_def EARTHLY_BRANCHES_def)
  ultimately show ?thesis by simp
qed

text \<open>
  Claim C3, amended: for every integer year from 3 to \<open>2^53 - 1\<close> (the largest safe
  integer), the year pillar is \<open>HEAVENLY_STEMS[stemRem - 1]\<close> and
  \<open>EARTHLY_BRANCHES[branchRem - 1]\<close>, both defined, where \<open>stemRem\<close> and \<open>branchRem\<close>
  are the remainders of \<open>year - 3\<close> modulo 10 and 12 with a remainder 0 counted as 10
  and 12.
\<close>

theorem C3_OfYear_one_based:
  assumes "3 \<le> year" "year \<le> 9007199254740991"
  shows "heavenlyStemAndEarthlyBranchOfYear year = yearPillarSpec year \<and>
         heavenlyStemAndEarthlyBranchOfYear year =
           (Some (HEAVENLY_STEMS ! nat (oneBasedRemainder (year - 3) 10 - 1)),
            Some (EARTHLY_BRANCHES ! nat (oneBasedRemainder (year - 3) 12 - 1)))"
proof -
  have spec: "heavenlyStemAndEarthlyBranchOfYear year = yearPillarSpec year"
    using OfYear_from_3 [OF assms] by (simp add: yearPillarSpec_def Let_def)
  have "tableAt HEAVENLY_STEMS (oneBasedRemainder (year - 3) 10 - 1) =
          Some (HEAVENLY_STEMS ! nat (oneBasedRemainder (year - 3) 10 - 1))"
    using oneBasedRemainder_10 [of "year - 3"] by (simp add: tableAt_def length_HEAVENLY_STEMS)
  moreover have "tableAt EARTHLY_BRANCHES (oneBasedRemainder (year - 3) 12 - 1) =
          Some (EARTHLY_BRANCHES ! nat (oneBasedRemainder (year - 3) 12 - 1))"
    using oneBasedRemainder_12 [of "year - 3"]
    by (simp add: tableAt_def length_EARTHLY_BRANCHES)
  ultimately show ?thesis
    using spec OfYear_from_3 [OF assms] by simp
qed

theorem C3_OfYear_one_based_witness:
  "(3::int) \<le> 1984 \<and> (1984::int) \<le> 9007199254740991 \<and>
   heavenlyStemAndEarthlyBranchOfYear 1984 = yearPillarSpec 1984 \<and>
   heavenlyStemAndEarthlyBranchOfYear 1984 = (Some S_jia, Some B_zi)"
  using C3_OfYear_one_based [of 1984]
  by (simp del: bitLength.simps add: yearPillarSpec_def tableAt_def oneBasedRemainder_def
      HEAVENLY_STEMS_def EARTHLY_BRANCHES_def)

text \<open>
  Claim C4, as stated: for every integer \<open>y\<close> the year pillars of \<open>y\<close> and \<open>y + 60\<close>
  are equal. For \<open>y = 2\<close> the code reads both tables at negative indices, and for
  \<open>y + 60 = 62\<close> it returns the ninth stem and the eleventh branch. For \<open>y = 2^53\<close> the
  difference \<open>y - 3\<close> is exact, while \<open>y + 60 - 3\<close> is rounded to \<open>2^53 + 56\<close>, and the
  two pillars differ.
\<close>

theorem C4_period_60_counterexample:
  "heavenlyStemAndEarthlyBranchOfYear 2 = (None, None) \<and>
   heavenlyStemAndEarthlyBranchOfYear (2 + 60) = (Some S_ren, Some B_xu) \<and>
   heavenlyStemAndEarthlyBranchOfYear 9007199254740992 = (Some S_ren, Some B_chen) \<and>
   heavenlyStemAndEarthlyBranchOfYear (9007199254740992 + 60) = (Some S_xin, Some B_mao)"
proof -
  have "roundToDouble (- 1) = - 1" "roundToDouble 59 = 59"
    "roundToDouble 9007199254740989 = 9007199254740989"
    by (rule roundToDouble_safe, simp)+
  moreover have "roundToDouble 9007199254741049 = 9007199254741048"
    by (simp del: bitLength.simps add: roundToDouble_def bitLength_54 Let_def)
  ultimately show ?thesis
    by (simp del: bitLength.simps add: heavenlyStemAndEarthlyBranchOfYear_def jsRem_def
        tableAt_def HEAVENLY_STEMS_def EARTHLY_BRANCHES_def)
qed

text \<open>
  Claim C4, amended: for every integer \<open>y\<close> from 3 on with \<open>y + 60\<close> at most
  \<open>2^53 - 1\<close> (the largest safe integer), the year pillars of \<open>y\<close> and \<open>y + 60\<close> are
  equal.
\<close>

theorem C4_OfYear_period_60:
  assumes "3 \<le> y" "y + 60 \<le> 9007199254740991"
  shows "heavenlyStemAndEarthlyBranchOfYear y = heavenlyStemAndEarthlyBranchOfYear (y + 60)"
proof -
  have "y + 60 - 3 = y - 3 + 10 * 6"
    by simp
  then have "(y + 60 - 3) mod 10 = (y - 3) mod 10"
    by (simp only: mod_mult_self2)
  moreover have "y + 60 - 3 = y - 3 + 12 * 5"
    by simp
  then have "(y + 60 - 3) mod 12 = (y - 3) mod 12"
    by (simp only: mod_mult_self2)
  ultimately have "oneBasedRemainder (y + 60 - 3) 10 = oneBasedRemainder (y - 3) 10"
    "oneBasedRemainder (y + 60 - 3) 12 = oneBasedRemainder (y - 3) 12"
    by (simp_all add: oneBasedRemainder_def)
  moreover have "3 \<le> y + 60" "y \<le> 9007199254740991" using assms by simp_all
  ultimately show ?thesis
    using OfYear_from_3 [of y] OfYear_from_3 [of "y + 60"] assms by simp
qed

theorem C4_OfYear_period_60_witness:
  "(3::int) \<le> 1984 \<and> (1984::int) + 60 \<le> 9007199254740991 \<and>
   heavenlyStemAndEarthlyBranchOfYear 1984 = heavenlyStemAndEarthlyBranchOfYear (1984 + 60)"
  using C4_OfYear_period_60 [of 1984] by (simp del: bitLength.simps)

section \<open>Month pillar\<close>

text \<open>
  Claim C2: for every solar date (year, month, day), the month rule computes the base
  offset \<open>(year - 1900) * 12 + month + 11\<close> and returns the pillar of \<open>offset + 1\<close> if
  the day is on or after \<open>getTerm(year, month * 2 - 1)\<close>, and the pillar of \<open>offset\<close>
  otherwise; on the boundary day itself the result is the pillar of \<open>offset + 1\<close>.
\<close>

theorem C2_OfMonth_term_boundary:
  assumes "normalizeSolarDateStr env date = (year, month, day)"
  shows "heavenlyStemAndEarthlyBranchOfMonth env date =
           (if day \<ge> getTerm env year (month * 2 - 1)
            then heavenlyStemAndEarthlyBranchFromOffset ((year - 1900) * 12 + month + 11 + 1)
            else heavenlyStemAndEarthlyBranchFromOffset ((year - 1900) * 12 + month + 11)) \<and>
         (day = getTerm env year (month * 2 - 1) \<longrightarrow>
            heavenlyStemAndEarthlyBranchOfMonth env date =
              heavenlyStemAndEarthlyBranchFromOffset ((year - 1900) * 12 + month + 11 + 1))"
  using assms by (simp add: heavenlyStemAndEarthlyBranchOfMonth_def Let_def)

theorem C2_OfMonth_term_boundary_witness:
  "normalizeSolarDateStr stubCollaborators (2023, 6, 6) = (2023, 6, 6) \<and>
   6 = getTerm stubCollaborators 2023 (6 * 2 - 1) \<and>
   heavenlyStemAndEarthlyBranchOfMonth stubCollaborators (2023, 6, 6) =
     heavenlyStemAndEarthlyBranchFromOffset ((2023 - 1900) * 12 + 6 + 11 + 1) \<and>
   heavenlyStemAndEarthlyBranchOfMonth stubCollaborators (2023, 6, 6) = (Some S_wu, Some B_wu)"
proof -
  have n: "normalizeSolarDateStr stubCollaborators (2023, 6, 6) = (2023, 6, 6)"
    by (simp add: stubCollaborators_def)
  have g: "getTerm stubCollaborators 2023 (6 * 2 - 1) = 6"
    by (simp add: stubCollaborators_def)
  have v: "heavenlyStemAndEarthlyBranchFromOffset 1494 = (Some S_wu, Some B_wu)"
    by (simp add: heavenlyStemAndEarthlyBranchFromOffset_def jsRem_def tableAt_def
        HEAVENLY_STEMS_def EARTHLY_BRANCHES_def)
  show ?thesis
    using C2_OfMonth_term_boundary [OF n] n g v by simp
qed

section \<open>Day pillar and the double-hour index\<close>

lemma OfDay_epochDayOffset:
  "heavenlyStemAndEarthlyBranchOfDay env date timeIndex =
     (case epochDayOffset env date timeIndex of
        None \<Rightarrow> (None, None)
      | Some k \<Rightarrow> heavenlyStemAndEarthlyBranchFromOffset k)"
  by (simp add: heavenlyStemAndEarthlyBranchOfDay_def epochDayOffset_def Let_def
      add.commute add.left_commute split: prod.splits option.splits)

text \<open>
  Claim C10: for every solar date and every two double-hour indices \<open>t1\<close> and \<open>t2\<close>,
  both in \<open>[0, 11]\<close>, the day rule returns the same pillar for \<open>t1\<close> and for \<open>t2\<close>.
\<close>

theorem C10_OfDay_ignores_timeIndex:
  assumes "0 \<le> t1" "t1 \<le> 11" "0 \<le> t2" "t2 \<le> 11"
  shows "heavenlyStemAndEarthlyBranchOfDay env date t1 =
         heavenlyStemAndEarthlyBranchOfDay env date t2"
proof -
  have "t1 \<noteq> 12" "t2 \<noteq> 12" using assms by simp_all
  then show ?thesis by (simp add: heavenlyStemAndEarthlyBranchOfDay_def)
qed

theorem C10_OfDay_ignores_timeIndex_witness:
  "(0::int) \<le> 3 \<and> (3::int) \<le> 11 \<and> (0::int) \<le> 9 \<and> (9::int) \<le> 11 \<and>
   heavenlyStemAndEarthlyBranchOfDay stubCollaborators (2023, 6, 25) 3 =
   heavenlyStemAndEarthlyBranchOfDay stubCollaborators (2023, 6, 25) 9"
  using C10_OfDay_ignores_timeIndex [of 3 9 stubCollaborators "(2023, 6, 25)"] by simp

section \<open>Hour pillar\<close>

lemma OfTime_Some:
  "heavenlyStemAndEarthlyBranchOfTime timeIndex (Some s) =
     (tableAt HEAVENLY_STEMS
        (fixIndex (indexOf HEAVENLY_STEMS (Some (RAT_RULE s)) + fixIndex timeIndex 12) 10),
      tableAt EARTHLY_BRANCHES (fixIndex timeIndex 12))"
  by (simp add: heavenlyStemAndEarthlyBranchOfTime_def)

text \<open>
  Claim C6: for every double-hour index in \<open>[0, 11]\<close> and every day stem \<open>s\<close> of the
  stem table, the hour rule returns the stem
  \<open>HEAVENLY_STEMS[fixIndex(indexOf(RAT_RULE[s]) + fixIndex(timeIndex, 10), 10)]\<close> and the
  branch \<open>EARTHLY_BRANCHES[fixIndex(timeIndex, 12)]\<close>, both defined table entries: the
  stem advance is taken modulo 10 although the inner call of the code reduces the
  index modulo 12.
\<close>

theorem C6_OfTime_stem_mod_10:
  assumes "0 \<le> timeIndex" "timeIndex \<le> 11"
  shows "heavenlyStemAndEarthlyBranchOfTime timeIndex (Some s) =
           (tableAt HEAVENLY_STEMS
              (fixIndex (indexOf HEAVENLY_STEMS (Some (RAT_RULE s)) + fixIndex timeIndex 10) 10),
            tableAt EARTHLY_BRANCHES (fixIndex timeIndex 12)) \<and>
         heavenlyStemAndEarthlyBranchOfTime timeIndex (Some s) =
           (Some (HEAVENLY_STEMS !
              nat (fixIndex (indexOf HEAVENLY_STEMS (Some (RAT_RULE s)) + fixIndex timeIndex 10) 10)),
            Some (EARTHLY_BRANCHES ! nat (fixIndex timeIndex 12)))"
proof -
  let ?i = "indexOf HEAVENLY_STEMS (Some (RAT_RULE s))"
  have t12: "timeIndex mod 12 = timeIndex"
    using assms by simp
  have "(?i + timeIndex mod 10) mod 10 = (?i + timeIndex) mod 10"
    by (rule mod_add_right_eq)
  then have stem: "fixIndex (?i + fixIndex timeIndex 12) 10 = fixIndex (?i + fixIndex timeIndex 10) 10"
    unfolding fixIndex_def t12 by (rule sym)
  have first: "heavenlyStemAndEarthlyBranchOfTime timeIndex (Some s) =
           (tableAt HEAVENLY_STEMS (fixIndex (?i + fixIndex timeIndex 10) 10),
            tableAt EARTHLY_BRANCHES (fixIndex timeIndex 12))"
    by (simp only: OfTime_Some stem)
  have "tableAt HEAVENLY_STEMS (fixIndex (?i + fixIndex timeIndex 10) 10) =
          Some (HEAVENLY_STEMS ! nat (fixIndex (?i + fixIndex timeIndex 10) 10))"
    unfolding fixIndex_def by (rule tableAt_stems_mod)
  moreover have "tableAt EARTHLY_BRANCHES (fixIndex timeIndex 12) =
          Some (EARTHLY_BRANCHES ! nat (fixIndex timeIndex 12))"
    unfolding fixIndex_def by (rule tableAt_branches_mod)
  ultimately show ?thesis using first by simp
qed

theorem C6_OfTime_stem_mod_10_witness:
  "(0::int) \<le> 11 \<and> (11::int) \<le> 11 \<and>
   fixIndex (indexOf HEAVENLY_STEMS (Some (RAT_RULE S_gui)) + fixIndex 11 10) 10 = 9 \<and>
   heavenlyStemAndEarthlyBranchOfTime 11 (Some S_gui) = (Some S_gui, Some B_hai)"
  using C6_OfTime_stem_mod_10 [of 11 S_gui]
  by (simp add: fixIndex_def indexOf_def tableAt_def HEAVENLY_STEMS_def EARTHLY_BRANCHES_def)

text \<open>
  Claim C9: for every day stem \<open>s\<close> of the stem table, the hour rule returns for the
  late-Zi sentinel 12 the same stem and branch as for the index 0, and the branch is
  the first branch.
\<close>

theorem C9_OfTime_sentinel_as_zero:
  "heavenlyStemAndEarthlyBranchOfTime 12 (Some s) =
     heavenlyStemAndEarthlyBranchOfTime 0 (Some s) \<and>
   snd (heavenlyStemAndEarthlyBranchOfTime 12 (Some s)) = Some B_zi"
  by (simp add: OfTime_Some fixIndex_def tableAt_def EARTHLY_BRANCHES_def)

section \<open>Positions in the sexagenary cycle\<close>

lemma distinct_HEAVENLY_STEMS: "distinct HEAVENLY_STEMS"
  by (simp add: HEAVENLY_STEMS_def)

lemma distinct_EARTHLY_BRANCHES: "distinct EARTHLY_BRANCHES"
  by (simp add: EARTHLY_BRANCHES_def)

lemma FromOffset_mod_60:
  assumes "0 \<le> k"
  shows "heavenlyStemAndEarthlyBranchFromOffset (k mod 60) =
         heavenlyStemAndEarthlyBranchFromOffset k"
proof -
  have "k mod 60 mod 10 = k mod 10" "k mod 60 mod 12 = k mod 12"
    by (simp_all add: mod_mod_cancel)
  moreover have "0 \<le> k mod 60" by simp
  ultimately show ?thesis
    using FromOffset_nonneg [of "k mod 60"] FromOffset_nonneg [OF assms] by simp
qed

lemma FromOffset_inject:
  assumes "0 \<le> i" "i < 60" "0 \<le> j" "j < 60"
    and eq: "heavenlyStemAndEarthlyBranchFromOffset i = heavenlyStemAndEarthlyBranchFromOffset j"
  shows "i = j"
proof -
  have s: "HEAVENLY_STEMS ! nat (i mod 10) = HEAVENLY_STEMS ! nat (j mod 10)"
    and b: "EARTHLY_BRANCHES ! nat (i mod 12) = EARTHLY_BRANCHES ! nat (j mod 12)"
    using eq FromOffset_nonneg [OF assms(1)] FromOffset_nonneg [OF assms(3)] by simp_all
  have "nat (i mod 10) < length HEAVENLY_STEMS" "nat (j mod 10) < length HEAVENLY_STEMS"
    by (simp_all add: length_HEAVENLY_STEMS)
  then have "nat (i mod 10) = nat (j mod 10)"
    using s distinct_HEAVENLY_STEMS by (simp add: nth_eq_iff_index_eq)
  then have m10: "i mod 10 = j mod 10" by simp
  have "nat (i mod 12) < length EARTHLY_BRANCHES" "nat (j mod 12) < length EARTHLY_BRANCHES"
    by (simp_all add: length_EARTHLY_BRANCHES)
  then have "nat (i mod 12) = nat (j mod 12)"
    using b distinct_EARTHLY_BRANCHES by (simp add: nth_eq_iff_index_eq)
  then have m12: "i mod 12 = j mod 12" by simp
  have "10 dvd (i - j)" using m10 by (simp add: mod_eq_dvd_iff)
  moreover have "12 dvd (i - j)" using m12 by (simp add: mod_eq_dvd_iff)
  ultimately have "6 * 10 dvd 6 * (i - j)" "5 * 12 dvd 5 * (i - j)"
    by (simp_all only: mult_dvd_mono dvd_refl)
  then have "60 dvd 6 * (i - j) - 5 * (i - j)"
    by (simp only: dvd_diff mult_numeral_left_semiring_numeral numeral_times_numeral
        semiring_norm)
  then have d: "60 dvd (i - j)" by simp
  have "\<bar>i - j\<bar> < 60" using assms(1-4) by linarith
  have "i - j = 0"
  proof (rule ccontr)
    assume "i - j \<noteq> 0"
    then have "\<bar>60\<bar> \<le> \<bar>i - j\<bar>" using d by (rule dvd_imp_le_int)
    with \<open>\<bar>i - j\<bar> < 60\<close> show False by simp
  qed
  then show ?thesis by simp
qed

lemma cycleIndex_FromOffset:
  assumes "0 \<le> k"
  shows "cycleIndex (heavenlyStemAndEarthlyBranchFromOffset k) = Some (k mod 60)"
proof -
  let ?xs = "map int [0..<60]"
  let ?i = "nat (k mod 60)"
  have i: "?i < length ?xs" by simp
  have xi: "?xs ! ?i = k mod 60" by simp
  have hit: "heavenlyStemAndEarthlyBranchFromOffset (?xs ! ?i) =
               heavenlyStemAndEarthlyBranchFromOffset k"
    unfolding xi by (rule FromOffset_mod_60 [OF assms])
  have miss: "heavenlyStemAndEarthlyBranchFromOffset (?xs ! j) \<noteq>
               heavenlyStemAndEarthlyBranchFromOffset k" if "j < ?i" for j
  proof
    assume e: "heavenlyStemAndEarthlyBranchFromOffset (?xs ! j) =
               heavenlyStemAndEarthlyBranchFromOffset k"
    have j60: "j < 60" using that i by simp
    then have xj: "?xs ! j = int j" by simp
    have "heavenlyStemAndEarthlyBranchFromOffset (int j) =
          heavenlyStemAndEarthlyBranchFromOffset (k mod 60)"
      using e xj FromOffset_mod_60 [OF assms] by simp
    then have "int j = k mod 60"
      using j60 by (intro FromOffset_inject) simp_all
    then show False using that by simp
  qed
  show ?thesis
    unfolding cycleIndex_def find_Some_iff
  proof (intro exI [of _ ?i] conjI allI impI)
    show "?i < length ?xs" by (rule i)
    show "heavenlyStemAndEarthlyBranchFromOffset (?xs ! ?i) =
          heavenlyStemAndEarthlyBranchFromOffset k" by (rule hit)
    show "k mod 60 = ?xs ! ?i" by (rule xi [symmetric])
    fix j assume "j < ?i"
    then show "heavenlyStemAndEarthlyBranchFromOffset (?xs ! j) \<noteq>
               heavenlyStemAndEarthlyBranchFromOffset k" by (rule miss)
  qed
qed

section \<open>The day count of Date.UTC\<close>

text \<open>
  The day rule in terms of whole days: \<^verbatim>\<open>TimeClip\<close> passes a day count of magnitude
  up to \<open>10^8\<close>. The day count of 1 January grows by the length of the year from one
  year to the next, the first day of a month lies one month length after the first
  day of the month before, and from 1900 to 275759 the day count stays in range.
\<close>

lemma stub_normalizeSolarDateStr: "normalizeSolarDateStr stubCollaborators d = d"
  by (simp add: stubCollaborators_def)

lemma TimeClip_days:
  "TimeClip (n * msPerDay) = (if \<bar>n\<bar> > 100000000 then None else Some (n * msPerDay))"
proof -
  have "\<bar>n * 86400000\<bar> = \<bar>n\<bar> * 86400000" by (simp add: abs_mult)
  then show ?thesis by (simp add: TimeClip_def msPerDay_def)
qed

lemma epochDayOffset_days:
  assumes "normalizeSolarDateStr env date = (y, m, d)"
  shows "epochDayOffset env date t =
           (let n = MakeDay (if 0 \<le> y \<and> y \<le> 99 then 1900 + y else y) (m - 1) 1
            in if \<bar>n\<bar> > 100000000 then None
               else Some (n + 25577 + d + (if t = 12 then 1 else 0) - 1))"
  using assms
  by (simp add: epochDayOffset_def Date_UTC_def TimeClip_days Let_def)
     (simp add: msPerDay_def)

lemma div_succ_int:
  fixes a n :: int
  assumes "0 < n"
  shows "(a + 1) div n = a div n + (if n dvd (a + 1) then 1 else 0)"
proof (cases "a mod n = n - 1")
  case True
  have "a = n * (a div n) + a mod n" by simp
  then have e: "a + 1 = n * (a div n + 1)" using True by (simp add: algebra_simps)
  then have "n dvd (a + 1)" by simp
  moreover have "(a + 1) div n = a div n + 1"
    using e assms by (metis nonzero_mult_div_cancel_left less_irrefl)
  ultimately show ?thesis by simp
next
  case False
  have r: "0 \<le> a mod n" "a mod n < n" using assms by simp_all
  then have r1: "0 \<le> a mod n + 1" "a mod n + 1 < n" using False by simp_all
  have e: "a + 1 = n * (a div n) + (a mod n + 1)" by simp
  have "(a + 1) div n = a div n"
    using e r1 by (rule int_div_pos_eq)
  moreover have "(a + 1) mod n = a mod n + 1"
    using e r1 by (rule int_mod_pos_eq)
  then have "\<not> n dvd (a + 1)" using r by (simp add: dvd_eq_mod_eq_0)
  ultimately show ?thesis by simp
qed

lemma dvd_shift:
  fixes y n c :: int
  shows "n dvd (y - n * c) \<longleftrightarrow> n dvd y"
  by (simp only: dvd_diff_left_iff dvd_triv_left)

lemma DaysInYear_dvd:
  "DaysInYear y =
     365 + (if 4 dvd y then 1 else 0) - (if 100 dvd y then 1 else 0) +
     (if 400 dvd y then 1 else 0)"
proof -
  have "(100::int) dvd 400" "(4::int) dvd 100" by simp_all
  then have d100: "400 dvd y \<Longrightarrow> 100 dvd y" and d4: "100 dvd y \<Longrightarrow> 4 dvd y"
    by (blast intro: dvd_trans)+
  show ?thesis
  proof (cases "4 dvd y")
    case False
    then have "\<not> 100 dvd y" "\<not> 400 dvd y" using d4 d100 by blast+
    with False show ?thesis by (simp add: DaysInYear_def mod_eq_0_iff_dvd)
  next
    case y4: True
    show ?thesis
    proof (cases "100 dvd y")
      case False
      then have "\<not> 400 dvd y" using d100 by blast
      with y4 False show ?thesis by (simp add: DaysInYear_def mod_eq_0_iff_dvd)
    next
      case True
      with y4 show ?thesis by (simp add: DaysInYear_def mod_eq_0_iff_dvd)
    qed
  qed
qed

lemma DayFromYear_Suc: "DayFromYear (y + 1) = DayFromYear y + DaysInYear y"
proof -
  have "y + 1 - 1969 = y - 1969 + 1" "y - 1969 + 1 = y - 4 * 492" by simp_all
  then have a: "(y + 1 - 1969) div 4 = (y - 1969) div 4 + (if 4 dvd y then 1 else 0)"
    using div_succ_int [of 4 "y - 1969"] dvd_shift [of 4 y 492] by (simp only: zero_less_numeral)
  have "y + 1 - 1901 = y - 1901 + 1" "y - 1901 + 1 = y - 100 * 19" by simp_all
  then have b: "(y + 1 - 1901) div 100 = (y - 1901) div 100 + (if 100 dvd y then 1 else 0)"
    using div_succ_int [of 100 "y - 1901"] dvd_shift [of 100 y 19] by (simp only: zero_less_numeral)
  have "y + 1 - 1601 = y - 1601 + 1" "y - 1601 + 1 = y - 400 * 4" by simp_all
  then have c: "(y + 1 - 1601) div 400 = (y - 1601) div 400 + (if 400 dvd y then 1 else 0)"
    using div_succ_int [of 400 "y - 1601"] dvd_shift [of 400 y 4] by (simp only: zero_less_numeral)
  show ?thesis
    unfolding DayFromYear_def DaysInYear_dvd a b c by simp
qed

lemma MakeDay_first_of_month:
  assumes "0 \<le> mn" "mn \<le> 11"
  shows "MakeDay y mn 1 = DayFromYear y + firstDayOfMonth y mn"
proof -
  have "mn div 12 = 0" "mn mod 12 = mn" using assms by simp_all
  then show ?thesis by (simp add: MakeDay_def)
qed

lemma InLeapYear_DaysInYear: "DaysInYear y = 365 + InLeapYear y"
  by (simp add: InLeapYear_def DaysInYear_def)

lemma firstDayOfMonth_next:
  assumes "1 \<le> m" "m < 12"
  shows "firstDayOfMonth y m = firstDayOfMonth y (m - 1) + daysInMonth y m"
proof -
  have "m = 1 \<or> m = 2 \<or> m = 3 \<or> m = 4 \<or> m = 5 \<or> m = 6 \<or> m = 7 \<or> m = 8 \<or> m = 9 \<or>
        m = 10 \<or> m = 11"
    using assms by arith
  then show ?thesis
    by (elim disjE) (simp_all add: firstDayOfMonth_def daysInMonth_def)
qed

lemma firstDayOfMonth_december: "firstDayOfMonth y 11 + 31 = DaysInYear y"
  by (simp add: firstDayOfMonth_def InLeapYear_DaysInYear)

lemma firstDayOfMonth_bounds:
  "0 \<le> firstDayOfMonth y mn \<and> firstDayOfMonth y mn \<le> 335"
  by (simp add: firstDayOfMonth_def InLeapYear_def)

lemma div_bounds:
  fixes a n :: int
  assumes "0 < n"
  shows "n * (a div n) \<le> a \<and> a < n * (a div n) + n"
proof -
  have "a = n * (a div n) + a mod n" by simp
  moreover have "0 \<le> a mod n" "a mod n < n" using assms by simp_all
  ultimately show ?thesis by linarith
qed

lemma DayFromYear_linear_bounds:
  "146097 * y - 287811700 \<le> 400 * DayFromYear y \<and>
   400 * DayFromYear y \<le> 146097 * y - 287810501"
proof -
  define A where "A = (y - 1969) div 4"
  define B where "B = (y - 1901) div 100"
  define C where "C = (y - 1601) div 400"
  have a: "4 * A \<le> y - 1969 \<and> y - 1969 < 4 * A + 4"
    unfolding A_def by (rule div_bounds) simp
  have b: "100 * B \<le> y - 1901 \<and> y - 1901 < 100 * B + 100"
    unfolding B_def by (rule div_bounds) simp
  have c: "400 * C \<le> y - 1601 \<and> y - 1601 < 400 * C + 400"
    unfolding C_def by (rule div_bounds) simp
  have d: "400 * DayFromYear y = 146000 * y - 287620000 + 400 * A - 400 * B + 400 * C"
    by (simp add: DayFromYear_def A_def B_def C_def)
  have "146097 * y - 287811700 \<le> 400 * DayFromYear y"
    using a [THEN conjunct2] b [THEN conjunct1] c [THEN conjunct2] unfolding d by linarith
  moreover have "400 * DayFromYear y \<le> 146097 * y - 287810501"
    using a [THEN conjunct1] b [THEN conjunct2] c [THEN conjunct1] unfolding d by linarith
  ultimately show ?thesis by (rule conjI)
qed

lemma DayFromYear_lower:
  assumes "1900 \<le> y"
  shows "- 25570 \<le> DayFromYear y"
  using DayFromYear_linear_bounds [of y] assms by linarith

lemma DayFromYear_upper:
  assumes "y \<le> 275759"
  shows "DayFromYear y + 366 \<le> 100000000"
  using DayFromYear_linear_bounds [of y] assms by linarith

lemma DaysInYear_le: "DaysInYear y \<le> 366"
  by (simp add: DaysInYear_def)

lemma epochDayOffset_from_1900:
  assumes n: "normalizeSolarDateStr env date = (y, m, d)"
    and m: "1 \<le> m" "m \<le> 12"
    and y: "1900 \<le> y"
    and ub: "DayFromYear y + firstDayOfMonth y (m - 1) \<le> 100000000"
  shows "epochDayOffset env date t =
           Some (DayFromYear y + firstDayOfMonth y (m - 1) + 25577 + d +
                 (if t = 12 then 1 else 0) - 1)"
proof -
  have yr: "(if 0 \<le> y \<and> y \<le> 99 then 1900 + y else y) = y"
    using y by simp
  have md: "MakeDay y (m - 1) 1 = DayFromYear y + firstDayOfMonth y (m - 1)"
    using m by (intro MakeDay_first_of_month) simp_all
  have "- 25570 \<le> DayFromYear y" using y by (rule DayFromYear_lower)
  moreover have "0 \<le> firstDayOfMonth y (m - 1)" using firstDayOfMonth_bounds by blast
  ultimately have "\<not> \<bar>MakeDay y (m - 1) 1\<bar> > 100000000"
    using ub unfolding md by linarith
  then show ?thesis
    using epochDayOffset_days [OF n, of t] by (simp only: yr Let_def if_False md)
qed

section \<open>The late-Zi sentinel in the day rule\<close>

text \<open>
  Claim C5, as stated: for every solar date, the day pillar for the double-hour index
  12 is one position further in the sexagenary cycle than the day pillar for the index
  11. For 1 January 1800 the epoch-day offsets are \<open>-36514\<close> and \<open>-36513\<close>, both
  pillars have two \<^verbatim>\<open>undefined\<close> entries, and neither has a position in the cycle.
\<close>

theorem C5_before_epoch_counterexample:
  "epochDayOffset stubCollaborators (1800, 1, 1) 11 = Some (- 36514) \<and>
   epochDayOffset stubCollaborators (1800, 1, 1) 12 = Some (- 36513) \<and>
   heavenlyStemAndEarthlyBranchOfDay stubCollaborators (1800, 1, 1) 11 = (None, None) \<and>
   heavenlyStemAndEarthlyBranchOfDay stubCollaborators (1800, 1, 1) 12 = (None, None)"
proof -
  have o11: "epochDayOffset stubCollaborators (1800, 1, 1) 11 = Some (- 36514)"
    using epochDayOffset_days [OF stub_normalizeSolarDateStr, of 1800 1 1 11]
    by (simp add: MakeDay_def DayFromYear_def firstDayOfMonth_def)
  have o12: "epochDayOffset stubCollaborators (1800, 1, 1) 12 = Some (- 36513)"
    using epochDayOffset_days [OF stub_normalizeSolarDateStr, of 1800 1 1 12]
    by (simp add: MakeDay_def DayFromYear_def firstDayOfMonth_def)
  have "heavenlyStemAndEarthlyBranchFromOffset (- 36514) = (None, None)"
    "heavenlyStemAndEarthlyBranchFromOffset (- 36513) = (None, None)"
    by (simp_all add: heavenlyStemAndEarthlyBranchFromOffset_def jsRem_def tableAt_def)
  then show ?thesis
    using o11 o12 by (simp add: OfDay_epochDayOffset)
qed

text \<open>
  Claim C5, amended: for every solar date whose epoch-day offset for the double-hour
  index 11 is a non-negative number \<open>k\<close>, the day rule with the index 12 converts the
  offset \<open>k + 1\<close>, and its pillar is one position further in the sexagenary cycle than
  the pillar for the index 11 (position \<open>k mod 60\<close>), wrapping from 59 to 0.
\<close>

theorem C5_OfDay_late_zi_next_position:
  assumes "epochDayOffset env date 11 = Some k" and "0 \<le> k"
  shows "epochDayOffset env date 12 = Some (k + 1) \<and>
         heavenlyStemAndEarthlyBranchOfDay env date 11 =
           heavenlyStemAndEarthlyBranchFromOffset k \<and>
         heavenlyStemAndEarthlyBranchOfDay env date 12 =
           heavenlyStemAndEarthlyBranchFromOffset (k + 1) \<and>
         cycleIndex (heavenlyStemAndEarthlyBranchOfDay env date 11) = Some (k mod 60) \<and>
         cycleIndex (heavenlyStemAndEarthlyBranchOfDay env date 12) =
           Some ((k mod 60 + 1) mod 60)"
proof -
  have o12: "epochDayOffset env date 12 = Some (k + 1)"
    using assms(1) by (auto simp: epochDayOffset_def split: prod.splits option.splits)
  have d11: "heavenlyStemAndEarthlyBranchOfDay env date 11 =
               heavenlyStemAndEarthlyBranchFromOffset k"
    by (simp add: OfDay_epochDayOffset assms(1))
  have d12: "heavenlyStemAndEarthlyBranchOfDay env date 12 =
               heavenlyStemAndEarthlyBranchFromOffset (k + 1)"
    by (simp add: OfDay_epochDayOffset o12)
  have "0 \<le> k + 1" using assms(2) by simp
  then have "cycleIndex (heavenlyStemAndEarthlyBranchFromOffset (k + 1)) = Some ((k + 1) mod 60)"
    by (rule cycleIndex_FromOffset)
  moreover have "(k + 1) mod 60 = (k mod 60 + 1) mod 60"
    by (simp add: mod_add_left_eq)
  ultimately show ?thesis
    using o12 d11 d12 cycleIndex_FromOffset [OF assms(2)] by simp
qed

theorem C5_OfDay_late_zi_next_position_witness:
  "epochDayOffset stubCollaborators (2023, 6, 25) 11 = Some 45110 \<and> (0::int) \<le> 45110 \<and>
   epochDayOffset stubCollaborators (2023, 6, 25) 12 = Some 45111 \<and>
   cycleIndex (heavenlyStemAndEarthlyBranchOfDay stubCollaborators (2023, 6, 25) 11) = Some 50 \<and>
   cycleIndex (heavenlyStemAndEarthlyBranchOfDay stubCollaborators (2023, 6, 25) 12) = Some 51"
proof -
  have h: "epochDayOffset stubCollaborators (2023, 6, 25) 11 = Some 45110"
    using epochDayOffset_days [OF stub_normalizeSolarDateStr, of 2023 6 25 11]
    by (simp add: MakeDay_def DayFromYear_def firstDayOfMonth_def InLeapYear_def
        DaysInYear_def)
  have k: "(0::int) \<le> 45110" by simp
  note t = C5_OfDay_late_zi_next_position [OF h k]
  have "epochDayOffset stubCollaborators (2023, 6, 25) 12 = Some 45111"
    using t [THEN conjunct1] by simp
  moreover have
    "cycleIndex (heavenlyStemAndEarthlyBranchOfDay stubCollaborators (2023, 6, 25) 11) = Some 50"
    using t [THEN conjunct2, THEN conjunct2, THEN conjunct2, THEN conjunct1] by simp
  moreover have
    "cycleIndex (heavenlyStemAndEarthlyBranchOfDay stubCollaborators (2023, 6, 25) 12) = Some 51"
    using t [THEN conjunct2, THEN conjunct2, THEN conjunct2, THEN conjunct2] by simp
  ultimately show ?thesis using h k by blast
qed

section \<open>The two aggregate queries\<close>

lemma OfMonth_cong:
  "normalizeSolarDateStr env a = normalizeSolarDateStr env b \<Longrightarrow>
     heavenlyStemAndEarthlyBranchOfMonth env a = heavenlyStemAndEarthlyBranchOfMonth env b"
  by (simp add: heavenlyStemAndEarthlyBranchOfMonth_def)

lemma OfDay_cong:
  "normalizeSolarDateStr env a = normalizeSolarDateStr env b \<Longrightarrow>
     heavenlyStemAndEarthlyBranchOfDay env a t = heavenlyStemAndEarthlyBranchOfDay env b t"
  by (simp add: heavenlyStemAndEarthlyBranchOfDay_def)

text \<open>
  Claim C8: for every lunar date string and solar date string that denote the same
  day (the conversion of the lunar string gives a date with the same year, month and
  day as the solar string, and both give the same lunar year) and the same double-hour
  index, the query by lunar date and the query by solar date both return a result, with
  identical yearly, monthly, daily and timely pillars and identical strings.
\<close>

theorem C8_lunar_and_solar_entry_agree:
  assumes "normalizeLunarDateStr env lunarStr = Inr lunarYear"
    and "solar2lunar env solarStr = Inr lunarYear"
    and "lunar2solar env lunarStr isLeap = Inr solar"
    and "normalizeSolarDateStr env (newDate env solar) =
         normalizeSolarDateStr env (newDate env solarStr)"
  shows "\<exists>a b. getHeavenlyStemAndEarthlyBranchByLunarDate env lunarStr timeIndex isLeap = Inr a \<and>
           getHeavenlyStemAndEarthlyBranchBySolarDate env solarStr timeIndex = Inr b \<and>
           yearly a = yearly b \<and> monthly a = monthly b \<and> daily a = daily b \<and>
           timely a = timely b \<and> toString a = toString b"
proof -
  have m: "heavenlyStemAndEarthlyBranchOfMonth env (newDate env solar) =
           heavenlyStemAndEarthlyBranchOfMonth env (newDate env solarStr)"
    by (rule OfMonth_cong [OF assms(4)])
  have d: "heavenlyStemAndEarthlyBranchOfDay env (newDate env solar) timeIndex =
           heavenlyStemAndEarthlyBranchOfDay env (newDate env solarStr) timeIndex"
    by (rule OfDay_cong [OF assms(4)])
  show ?thesis
    by (simp add: getHeavenlyStemAndEarthlyBranchByLunarDate_def
        getHeavenlyStemAndEarthlyBranchBySolarDate_def assms(1-3) m d Let_def)
qed

theorem C8_lunar_and_solar_entry_agree_witness:
  "normalizeLunarDateStr stubCollaborators ''2023-5-8'' = Inr 2023 \<and>
   solar2lunar stubCollaborators ''2023-6-25'' = Inr 2023 \<and>
   lunar2solar stubCollaborators ''2023-5-8'' None = Inr ''2023-6-25'' \<and>
   (\<exists>a b. getHeavenlyStemAndEarthlyBranchByLunarDate stubCollaborators ''2023-5-8'' 2 None = Inr a \<and>
      getHeavenlyStemAndEarthlyBranchBySolarDate stubCollaborators ''2023-6-25'' 2 = Inr b \<and>
      yearly a = yearly b \<and> monthly a = monthly b \<and> daily a = daily b \<and>
      timely a = timely b \<and> toString a = toString b)"
proof -
  have 1: "normalizeLunarDateStr stubCollaborators ''2023-5-8'' = Inr 2023"
    and 2: "solar2lunar stubCollaborators ''2023-6-25'' = Inr 2023"
    and 3: "lunar2solar stubCollaborators ''2023-5-8'' None = Inr ''2023-6-25''"
    and 4: "normalizeSolarDateStr stubCollaborators (newDate stubCollaborators ''2023-6-25'') =
            normalizeSolarDateStr stubCollaborators (newDate stubCollaborators ''2023-6-25'')"
    by (simp_all add: stubCollaborators_def)
  show ?thesis
    using C8_lunar_and_solar_entry_agree [OF 1 2 3 4, of 2] 1 2 3 by blast
qed

section \<open>Consecutive days\<close>

lemma consecutive_days_offsets:
  fixes t :: int
  assumes n: "normalizeSolarDateStr env date = (y, m, d)"
    and v: "validDate (y, m, d)"
    and y: "1900 \<le> y" "y \<le> 275759"
    and n': "normalizeSolarDateStr env date' = nextDay (y, m, d)"
  defines "k \<equiv> DayFromYear y + firstDayOfMonth y (m - 1) + 25577 + d +
                 (if t = 12 then 1 else 0) - 1"
  shows "0 \<le> k \<and> epochDayOffset env date t = Some k \<and>
         epochDayOffset env date' t = Some (k + 1)"
proof -
  have m: "1 \<le> m" "m \<le> 12" and d: "1 \<le> d" "d \<le> daysInMonth y m"
    using v by (simp_all add: validDate_def)
  have lo: "- 25570 \<le> DayFromYear y" using y(1) by (rule DayFromYear_lower)
  have up: "DayFromYear y + 366 \<le> 100000000" using y(2) by (rule DayFromYear_upper)
  have f: "0 \<le> firstDayOfMonth y mn" "firstDayOfMonth y mn \<le> 335" for mn
    using firstDayOfMonth_bounds [of y mn] by simp_all
  have ub: "DayFromYear y + firstDayOfMonth y mn \<le> 100000000" for mn
    using up f(2) [of mn] by linarith
  have k0: "0 \<le> k"
    unfolding k_def using lo f(1) [of "m - 1"] d(1) by simp
  have ek: "epochDayOffset env date t = Some k"
    unfolding k_def using n m y(1) ub by (rule epochDayOffset_from_1900)
  have ek': "epochDayOffset env date' t = Some (k + 1)"
  proof (cases "d < daysInMonth y m")
    case True
    then have "normalizeSolarDateStr env date' = (y, m, d + 1)"
      using n' by (simp add: nextDay_def)
    then have "epochDayOffset env date' t =
        Some (DayFromYear y + firstDayOfMonth y (m - 1) + 25577 + (d + 1) +
              (if t = 12 then 1 else 0) - 1)"
      using m y(1) ub by (rule epochDayOffset_from_1900)
    then show ?thesis by (simp add: k_def)
  next
    case last: False
    then have dl: "d = daysInMonth y m" using d(2) by simp
    show ?thesis
    proof (cases "m < 12")
      case True
      then have "normalizeSolarDateStr env date' = (y, m + 1, 1)"
        using n' last by (simp add: nextDay_def)
      moreover have "1 \<le> m + 1" "m + 1 \<le> 12" using m(1) True by simp_all
      ultimately have "epochDayOffset env date' t =
        Some (DayFromYear y + firstDayOfMonth y (m + 1 - 1) + 25577 + 1 +
              (if t = 12 then 1 else 0) - 1)"
        using y(1) ub by (rule epochDayOffset_from_1900)
      moreover have "firstDayOfMonth y (m + 1 - 1) = firstDayOfMonth y (m - 1) + d"
        using firstDayOfMonth_next [OF m(1) True, of y] dl by simp
      ultimately show ?thesis by (simp add: k_def)
    next
      case False
      then have m12: "m = 12" using m(2) by simp
      then have d31: "d = 31" using dl by (simp add: daysInMonth_def)
      have "normalizeSolarDateStr env date' = (y + 1, 1, 1)"
        using n' last False by (simp add: nextDay_def)
      moreover have "(1::int) \<le> 1" "(1::int) \<le> 12" "1900 \<le> y + 1" using y(1) by simp_all
      moreover have "DayFromYear (y + 1) + firstDayOfMonth (y + 1) (1 - 1) \<le> 100000000"
        using up DaysInYear_le [of y] by (simp add: DayFromYear_Suc firstDayOfMonth_def)
      ultimately have "epochDayOffset env date' t =
        Some (DayFromYear (y + 1) + firstDayOfMonth (y + 1) (1 - 1) + 25577 + 1 +
              (if t = 12 then 1 else 0) - 1)"
        by (rule epochDayOffset_from_1900)
      moreover have "DayFromYear (y + 1) + firstDayOfMonth (y + 1) (1 - 1) =
                     DayFromYear y + firstDayOfMonth y (12 - 1) + 31"
        using firstDayOfMonth_december [of y]
        by (simp add: DayFromYear_Suc firstDayOfMonth_def)
      ultimately show ?thesis by (simp add: k_def m12 d31)
    qed
  qed
  show ?thesis using k0 ek ek' by simp
qed

text \<open>
  Claim C7, as stated: for every pair of consecutive days \<open>d\<close> and \<open>d + 1\<close>, across
  month and year boundaries too, and the same double-hour index in \<open>[0, 11]\<close>, the
  epoch-day offset of \<open>d + 1\<close> is one greater than that of \<open>d\<close>, and the two pillars
  are adjacent in the sexagenary cycle. For 15 and 16 June 1850 the offsets are
  negative and both pillars have two \<^verbatim>\<open>undefined\<close> entries. For 31 December 99 and
  1 January 100 the offsets are not consecutive: \<^verbatim>\<open>Date.UTC\<close> reads the year 99 as 1999.
\<close>

theorem C7_consecutive_days_counterexample:
  "validDate (1850, 6, 15) \<and> nextDay (1850, 6, 15) = (1850, 6, 16) \<and>
   heavenlyStemAndEarthlyBranchOfDay stubCollaborators (1850, 6, 15) 0 = (None, None) \<and>
   heavenlyStemAndEarthlyBranchOfDay stubCollaborators (1850, 6, 16) 0 = (None, None) \<and>
   validDate (99, 12, 31) \<and> nextDay (99, 12, 31) = (100, 1, 1) \<and>
   epochDayOffset stubCollaborators (99, 12, 31) 0 = Some 36533 \<and>
   epochDayOffset stubCollaborators (100, 1, 1) 0 = Some (- 657426)"
proof -
  have v: "validDate (1850, 6, 15)" "nextDay (1850, 6, 15) = (1850, 6, 16)"
    "validDate (99, 12, 31)" "nextDay (99, 12, 31) = (100, 1, 1)"
    by (simp_all add: validDate_def nextDay_def daysInMonth_def)
  have a: "epochDayOffset stubCollaborators (1850, 6, 15) 0 = Some (- 18087)"
    using epochDayOffset_days [OF stub_normalizeSolarDateStr, of 1850 6 15 0]
    by (simp add: MakeDay_def DayFromYear_def firstDayOfMonth_def InLeapYear_def DaysInYear_def)
  have b: "epochDayOffset stubCollaborators (1850, 6, 16) 0 = Some (- 18086)"
    using epochDayOffset_days [OF stub_normalizeSolarDateStr, of 1850 6 16 0]
    by (simp add: MakeDay_def DayFromYear_def firstDayOfMonth_def InLeapYear_def DaysInYear_def)
  have c: "epochDayOffset stubCollaborators (99, 12, 31) 0 = Some 36533"
    using epochDayOffset_days [OF stub_normalizeSolarDateStr, of 99 12 31 0]
    by (simp add: MakeDay_def DayFromYear_def firstDayOfMonth_def InLeapYear_def DaysInYear_def)
  have d: "epochDayOffset stubCollaborators (100, 1, 1) 0 = Some (- 657426)"
    using epochDayOffset_days [OF stub_normalizeSolarDateStr, of 100 1 1 0]
    by (simp add: MakeDay_def DayFromYear_def firstDayOfMonth_def)
  have "heavenlyStemAndEarthlyBranchFromOffset (- 18087) = (None, None)"
    "heavenlyStemAndEarthlyBranchFromOffset (- 18086) = (None, None)"
    by (simp_all add: heavenlyStemAndEarthlyBranchFromOffset_def jsRem_def tableAt_def)
  then show ?thesis
    using v a b c d by (simp add: OfDay_epochDayOffset)
qed

text \<open>
  Claim C7, amended: for every pair of consecutive days \<open>d\<close> and \<open>d + 1\<close> with \<open>d\<close> in
  a year from 1900 to 275759, across month and year boundaries too, and the same
  double-hour index, the epoch-day offset of \<open>d\<close> is a non-negative number \<open>k\<close>, that
  of \<open>d + 1\<close> is \<open>k + 1\<close>, and the two pillars are at the adjacent positions \<open>k mod 60\<close>
  and \<open>(k mod 60 + 1) mod 60\<close> of the sexagenary cycle, wrapping from 59 to 0.
\<close>

theorem C7_consecutive_days_adjacent:
  assumes "normalizeSolarDateStr env date = (y, m, d)"
    and "validDate (y, m, d)"
    and "1900 \<le> y" and "y \<le> 275759"
    and "normalizeSolarDateStr env date' = nextDay (y, m, d)"
  shows "\<exists>k. 0 \<le> k \<and>
           epochDayOffset env date t = Some k \<and>
           epochDayOffset env date' t = Some (k + 1) \<and>
           cycleIndex (heavenlyStemAndEarthlyBranchOfDay env date t) = Some (k mod 60) \<and>
           cycleIndex (heavenlyStemAndEarthlyBranchOfDay env date' t) =
             Some ((k mod 60 + 1) mod 60)"
proof -
  from consecutive_days_offsets [OF assms, of t]
  obtain k where k: "0 \<le> k" "epochDayOffset env date t = Some k"
    "epochDayOffset env date' t = Some (k + 1)"
    by blast
  have "0 \<le> k + 1" using k(1) by simp
  then have "cycleIndex (heavenlyStemAndEarthlyBranchFromOffset (k + 1)) = Some ((k + 1) mod 60)"
    by (rule cycleIndex_FromOffset)
  moreover have "(k + 1) mod 60 = (k mod 60 + 1) mod 60"
    by (simp add: mod_add_left_eq)
  ultimately have
    "cycleIndex (heavenlyStemAndEarthlyBranchOfDay env date' t) = Some ((k mod 60 + 1) mod 60)"
    by (simp add: OfDay_epochDayOffset k(3))
  moreover have "cycleIndex (heavenlyStemAndEarthlyBranchOfDay env date t) = Some (k mod 60)"
    by (simp add: OfDay_epochDayOffset k(2) cycleIndex_FromOffset [OF k(1)])
  ultimately show ?thesis using k by blast
qed

theorem C7_consecutive_days_adjacent_witness:
  "normalizeSolarDateStr stubCollaborators (2023, 12, 31) = (2023, 12, 31) \<and>
   validDate (2023, 12, 31) \<and> (1900::int) \<le> 2023 \<and> (2023::int) \<le> 275759 \<and>
   normalizeSolarDateStr stubCollaborators (2024, 1, 1) = nextDay (2023, 12, 31) \<and>
   epochDayOffset stubCollaborators (2023, 12, 31) 0 = Some 45299 \<and>
   epochDayOffset stubCollaborators (2024, 1, 1) 0 = Some 45300 \<and>
   cycleIndex (heavenlyStemAndEarthlyBranchOfDay stubCollaborators (2023, 12, 31) 0) = Some 59 \<and>
   cycleIndex (heavenlyStemAndEarthlyBranchOfDay stubCollaborators (2024, 1, 1) 0) = Some 0"
proof -
  have n: "normalizeSolarDateStr stubCollaborators (2023, 12, 31) = (2023, 12, 31)"
    by (rule stub_normalizeSolarDateStr)
  have v: "validDate (2023, 12, 31)"
    by (simp add: validDate_def daysInMonth_def)
  have y: "(1900::int) \<le> 2023" "(2023::int) \<le> 275759"
    by simp_all
  have n': "normalizeSolarDateStr stubCollaborators (2024, 1, 1) = nextDay (2023, 12, 31)"
    by (simp add: stub_normalizeSolarDateStr nextDay_def daysInMonth_def)
  have e: "epochDayOffset stubCollaborators (2023, 12, 31) 0 = Some 45299"
    using epochDayOffset_days [OF stub_normalizeSolarDateStr, of 2023 12 31 0]
    by (simp add: MakeDay_def DayFromYear_def firstDayOfMonth_def InLeapYear_def DaysInYear_def)
  from C7_consecutive_days_adjacent [OF n v y n', of 0]
  obtain k where k: "epochDayOffset stubCollaborators (2023, 12, 31) 0 = Some k"
    "epochDayOffset stubCollaborators (2024, 1, 1) 0 = Some (k + 1)"
    "cycleIndex (heavenlyStemAndEarthlyBranchOfDay stubCollaborators (2023, 12, 31) 0) =
       Some (k mod 60)"
    "cycleIndex (heavenlyStemAndEarthlyBranchOfDay stubCollaborators (2024, 1, 1) 0) =
       Some ((k mod 60 + 1) mod 60)"
    by blast
  have "k = 45299" using k(1) e by simp
  then show ?thesis using n v n' k by simp
qed

end
